theory Spec2Isabelle
  imports Complex_Main "HOL-Library.Char_ord" "HOL-Library.List_Lexorder"
begin

section \<open>JavaScript numbers and values\<close>

text \<open>
  A JavaScript number is modelled as an exact real, the two infinities, or NaN.
  Rounding of IEEE doubles and the sign of zero are left out: the arithmetic below is
  the arithmetic of JavaScript on the extended reals. Division by zero, the remainder,
  \<open>Math.max\<close> and \<open>Math.min\<close> and the comparisons follow ECMAScript on these values.
\<close>

datatype jsnum = Fin real | PInf | NInf | NaN

fun isNaN :: "jsnum \<Rightarrow> bool" where
  "isNaN NaN = True"
| "isNaN _ = False"

fun js_neg :: "jsnum \<Rightarrow> jsnum" where
  "js_neg (Fin x) = Fin (- x)"
| "js_neg PInf = NInf"
| "js_neg NInf = PInf"
| "js_neg NaN = NaN"

fun js_add :: "jsnum \<Rightarrow> jsnum \<Rightarrow> jsnum" where
  "js_add (Fin x) (Fin y) = Fin (x + y)"
| "js_add NaN _ = NaN"
| "js_add _ NaN = NaN"
| "js_add PInf NInf = NaN"
| "js_add NInf PInf = NaN"
| "js_add PInf _ = PInf"
| "js_add _ PInf = PInf"
| "js_add NInf _ = NInf"
| "js_add _ NInf = NInf"

definition js_sub :: "jsnum \<Rightarrow> jsnum \<Rightarrow> jsnum" where
  "js_sub a b = js_add a (js_neg b)"

fun js_mul :: "jsnum \<Rightarrow> jsnum \<Rightarrow> jsnum" where
  "js_mul (Fin x) (Fin y) = Fin (x * y)"
| "js_mul NaN _ = NaN"
| "js_mul _ NaN = NaN"
| "js_mul PInf (Fin y) = (if y = 0 then NaN else if 0 < y then PInf else NInf)"
| "js_mul NInf (Fin y) = (if y = 0 then NaN else if 0 < y then NInf else PInf)"
| "js_mul (Fin x) PInf = (if x = 0 then NaN else if 0 < x then PInf else NInf)"
| "js_mul (Fin x) NInf = (if x = 0 then NaN else if 0 < x then NInf else PInf)"
| "js_mul PInf PInf = PInf"
| "js_mul NInf NInf = PInf"
| "js_mul PInf NInf = NInf"
| "js_mul NInf PInf = NInf"

fun js_div :: "jsnum \<Rightarrow> jsnum \<Rightarrow> jsnum" where
  "js_div (Fin x) (Fin y) =
     (if y \<noteq> 0 then Fin (x / y)
      else if x = 0 then NaN else if 0 < x then PInf else NInf)"
| "js_div NaN _ = NaN"
| "js_div _ NaN = NaN"
| "js_div (Fin x) _ = Fin 0"
| "js_div PInf (Fin y) = (if 0 \<le> y then PInf else NInf)"
| "js_div NInf (Fin y) = (if 0 \<le> y then NInf else PInf)"
| "js_div _ _ = NaN"

text \<open>The remainder \<open>a % b\<close> takes the sign of the dividend (truncated division).\<close>

definition trunc :: "real \<Rightarrow> int" where
  "trunc x = (if 0 \<le> x then \<lfloor>x\<rfloor> else \<lceil>x\<rceil>)"

fun js_rem :: "jsnum \<Rightarrow> jsnum \<Rightarrow> jsnum" where
  "js_rem (Fin x) (Fin y) = (if y = 0 then NaN else Fin (x - y * of_int (trunc (x / y))))"
| "js_rem (Fin x) PInf = Fin x"
| "js_rem (Fin x) NInf = Fin x"
| "js_rem _ _ = NaN"

fun js_abs :: "jsnum \<Rightarrow> jsnum" where
  "js_abs (Fin x) = Fin \<bar>x\<bar>"
| "js_abs PInf = PInf"
| "js_abs NInf = PInf"
| "js_abs NaN = NaN"

fun js_lt :: "jsnum \<Rightarrow> jsnum \<Rightarrow> bool" where
  "js_lt (Fin x) (Fin y) = (x < y)"
| "js_lt NaN _ = False"
| "js_lt _ NaN = False"
| "js_lt _ NInf = False"
| "js_lt PInf _ = False"
| "js_lt _ _ = True"

text \<open>\<open>Math.max\<close> and \<open>Math.min\<close> of two numbers: NaN as soon as one of them is NaN.\<close>

definition js_max :: "jsnum \<Rightarrow> jsnum \<Rightarrow> jsnum" where
  "js_max a b = (if isNaN a \<or> isNaN b then NaN else if js_lt a b then b else a)"

definition js_min :: "jsnum \<Rightarrow> jsnum \<Rightarrow> jsnum" where
  "js_min a b = (if isNaN a \<or> isNaN b then NaN else if js_lt b a then b else a)"

text \<open>\<open>Math.max(...xs)\<close> and \<open>Math.min(...xs)\<close>: the empty list gives the infinities.\<close>

definition Math_max :: "jsnum list \<Rightarrow> jsnum" where
  "Math_max xs = foldl js_max NInf xs"

definition Math_min :: "jsnum list \<Rightarrow> jsnum" where
  "Math_min xs = foldl js_min PInf xs"

fun Math_sqrt :: "jsnum \<Rightarrow> jsnum" where
  "Math_sqrt (Fin x) = (if x < 0 then NaN else Fin (sqrt x))"
| "Math_sqrt PInf = PInf"
| "Math_sqrt _ = NaN"

fun Math_floor :: "jsnum \<Rightarrow> jsnum" where
  "Math_floor (Fin x) = Fin (of_int \<lfloor>x\<rfloor>)"
| "Math_floor v = v"

text \<open>\<open>Math.round\<close> rounds to the nearest integer, a tie towards plus infinity.\<close>

fun Math_round :: "jsnum \<Rightarrow> jsnum" where
  "Math_round (Fin x) = Fin (of_int \<lfloor>x + 1 / 2\<rfloor>)"
| "Math_round v = v"

text \<open>
  A value that may also be \<open>null\<close> or \<open>undefined\<close>. In arithmetic \<open>null\<close> counts as 0
  and \<open>undefined\<close> as NaN (ToNumber).
\<close>

datatype jsval = Null | Undefined | Number jsnum

fun toNumber :: "jsval \<Rightarrow> jsnum" where
  "toNumber Null = Fin 0"
| "toNumber Undefined = NaN"
| "toNumber (Number n) = n"

text \<open>Truthiness of a number: 0 and NaN are falsy, so \<open>x || d\<close> is \<open>d\<close> for them.\<close>

fun truthy :: "jsnum \<Rightarrow> bool" where
  "truthy (Fin x) = (x \<noteq> 0)"
| "truthy NaN = False"
| "truthy _ = True"

definition or_else :: "jsnum \<Rightarrow> jsnum \<Rightarrow> jsnum" where
  "or_else x d = (if truthy x then x else d)"

section \<open>Strings: split, parseInt, String, padStart\<close>

text \<open>\<open>s.split(sep)\<close> for a one-character separator: never the empty list.\<close>

fun split_on :: "char \<Rightarrow> string \<Rightarrow> string list" where
  "split_on sep [] = [[]]"
| "split_on sep (c # cs) =
     (if c = sep then [] # split_on sep cs
      else (case split_on sep cs of
              p # ps \<Rightarrow> (c # p) # ps
            | [] \<Rightarrow> [[c]]))"

definition isWhiteSpace :: "char \<Rightarrow> bool" where
  "isWhiteSpace c =
     (c = CHR 0x09 \<or> c = CHR 0x0A \<or> c = CHR 0x0B \<or> c = CHR 0x0C \<or> c = CHR 0x0D \<or> c = CHR '' '')"

text \<open>The value of a character as a digit of radix 10 or 16.\<close>

fun indexOf :: "char \<Rightarrow> string \<Rightarrow> nat option" where
  "indexOf c [] = None"
| "indexOf c (d # ds) = (if c = d then Some 0 else map_option Suc (indexOf c ds))"

definition digitVal :: "char \<Rightarrow> nat option" where
  "digitVal c =
     (case indexOf c ''0123456789abcdef'' of
        Some d \<Rightarrow> Some d
      | None \<Rightarrow> map_option (\<lambda>i. 10 + i) (indexOf c ''ABCDEF''))"

definition isRadixDigit :: "nat \<Rightarrow> char \<Rightarrow> bool" where
  "isRadixDigit R c = (case digitVal c of None \<Rightarrow> False | Some d \<Rightarrow> d < R)"

definition mathInt :: "nat \<Rightarrow> string \<Rightarrow> nat" where
  "mathInt R ds = foldl (\<lambda>acc c. acc * R + (case digitVal c of None \<Rightarrow> 0 | Some d \<Rightarrow> d)) 0 ds"

text \<open>
  \<open>parseInt(s)\<close> with no radix: leading white space is skipped, a sign is read, a prefix
  \<open>0x\<close> or \<open>0X\<close> selects radix 16, and the longest prefix of digits is the value; NaN
  when there is no digit. Whatever follows the digits is ignored.
\<close>

definition parseInt :: "string \<Rightarrow> jsnum" where
  "parseInt s =
     (let S = dropWhile isWhiteSpace s;
          neg = (case S of [] \<Rightarrow> False | c # _ \<Rightarrow> c = CHR ''-'');
          S1 = (case S of [] \<Rightarrow> S | c # r \<Rightarrow> if c = CHR ''+'' \<or> c = CHR ''-'' then r else S);
          hex = (take 2 S1 = ''0x'' \<or> take 2 S1 = ''0X'');
          R = (if hex then 16 else 10);
          S2 = (if hex then drop 2 S1 else S1);
          Z = takeWhile (isRadixDigit R) S2
      in if Z = [] then NaN
         else if neg then Fin (- real (mathInt R Z)) else Fin (real (mathInt R Z)))"

text \<open>
  \<open>parseInt(parts[i])\<close>: an index past the end reads \<open>undefined\<close>, which parseInt
  turns into the string "undefined" and so into NaN.
\<close>

definition parseIntAt :: "string list \<Rightarrow> nat \<Rightarrow> jsnum" where
  "parseIntAt parts i = parseInt (if i < length parts then parts ! i else ''undefined'')"

definition digitChar :: "nat \<Rightarrow> char" where
  "digitChar d =
     (if d = 0 then CHR ''0'' else if d = 1 then CHR ''1'' else if d = 2 then CHR ''2''
      else if d = 3 then CHR ''3'' else if d = 4 then CHR ''4'' else if d = 5 then CHR ''5''
      else if d = 6 then CHR ''6'' else if d = 7 then CHR ''7'' else if d = 8 then CHR ''8''
      else CHR ''9'')"

function showNat :: "nat \<Rightarrow> string" where
  "showNat n = (if n < 10 then [digitChar n] else showNat (n div 10) @ [digitChar (n mod 10)])"
  by pat_completeness auto
termination
  by (relation "measure id") auto

declare showNat.simps [simp del]

text \<open>
  \<open>String(x)\<close> for the values \<open>Math.floor\<close> and \<open>Math.round\<close> return: an integer is
  printed in decimal (JavaScript does so below \<open>10^21\<close>), the others by name.
\<close>

fun String_of :: "jsnum \<Rightarrow> string" where
  "String_of (Fin x) = (if x < 0 then CHR ''-'' # showNat (nat (- \<lfloor>x\<rfloor>)) else showNat (nat \<lfloor>x\<rfloor>))"
| "String_of PInf = ''Infinity''"
| "String_of NInf = ''-Infinity''"
| "String_of NaN = ''NaN''"

definition padStart :: "nat \<Rightarrow> char \<Rightarrow> string \<Rightarrow> string" where
  "padStart n c s = replicate (n - length s) c @ s"

section \<open>Time utilities (useDataQuality.js)\<close>

text \<open>A string that may be \<open>null\<close>; \<open>!s\<close> holds for \<open>null\<close> and for the empty string.\<close>

definition absent :: "string option \<Rightarrow> bool" where
  "absent s = (case s of None \<Rightarrow> True | Some t \<Rightarrow> t = [])"

definition formatMinutesToTime :: "jsnum option \<Rightarrow> string option" where
  "formatMinutesToTime minutes =
     (case minutes of
        None \<Rightarrow> None
      | Some x \<Rightarrow>
          (let h = Math_floor (js_div x (Fin 60));
               m = Math_round (js_rem x (Fin 60))
           in Some (padStart 2 (CHR ''0'') (String_of h) @ '':'' @ padStart 2 (CHR ''0'') (String_of m))))"

definition timeToMinutes :: "string option \<Rightarrow> jsnum" where
  "timeToMinutes time =
     (if absent time then Fin 0
      else (let parts = split_on (CHR '':'') (the time)
            in js_add (js_mul (parseIntAt parts 0) (Fin 60)) (parseIntAt parts 1)))"

text \<open>\<open>awakeDuration\<close> returns a number or \<open>null\<close> (\<open>None\<close>).\<close>

definition awakeDuration :: "string option \<Rightarrow> string option \<Rightarrow> jsnum option" where
  "awakeDuration firstActivity lastActivity =
     (if absent firstActivity \<or> absent lastActivity then None
      else (let first = timeToMinutes firstActivity;
                last = timeToMinutes lastActivity
            in if first = Fin 0 \<and> last = Fin 0 then None
               else Some (js_max (Fin 0) (js_sub last first))))"

section \<open>Statistics and hour buckets (useDataQuality.js)\<close>

text \<open>A number that may be \<open>null\<close> is a \<open>jsnum option\<close>; \<open>nullable\<close> gives the JavaScript value.\<close>

definition nullable :: "jsnum option \<Rightarrow> jsval" where
  "nullable v = (case v of None \<Rightarrow> Null | Some n \<Rightarrow> Number n)"

definition js_sum :: "jsnum list \<Rightarrow> jsnum" where
  "js_sum xs = foldl js_add (Fin 0) xs"

definition avg :: "jsnum list option \<Rightarrow> jsnum option" where
  "avg arr =
     (case arr of
        None \<Rightarrow> None
      | Some xs \<Rightarrow> if length xs = 0 then None else Some (js_div (js_sum xs) (Fin (real (length xs)))))"

definition stddev :: "jsnum list option \<Rightarrow> jsnum" where
  "stddev arr =
     (case arr of
        None \<Rightarrow> Fin 1
      | Some xs \<Rightarrow>
          if length xs < 2 then Fin 1
          else (let mean = toNumber (nullable (avg arr));
                    squareDiffs = map (\<lambda>v. js_mul (js_sub v mean) (js_sub v mean)) xs
                in or_else (Math_sqrt (toNumber (nullable (avg (Some squareDiffs))))) (Fin 1)))"

text \<open>
  An hourly array holds JSON numbers. \<open>eventsPerHour[h] || 0\<close> reads 0 past the end.
\<close>

definition hourAt :: "real list \<Rightarrow> nat \<Rightarrow> real" where
  "hourAt eventsPerHour h = (if h < length eventsPerHour then eventsPerHour ! h else 0)"

definition sumEventsInRange :: "real list option \<Rightarrow> nat \<Rightarrow> nat \<Rightarrow> real" where
  "sumEventsInRange eventsPerHour startHour endHour =
     (case eventsPerHour of
        None \<Rightarrow> 0
      | Some e \<Rightarrow>
          if length e < 24 then 0
          else foldl (\<lambda>sum h. sum + hourAt e h) 0 [startHour ..< Suc endHour])"

definition cosineSimilarity :: "real list option \<Rightarrow> real list option \<Rightarrow> real" where
  "cosineSimilarity a b =
     (case (a, b) of
        (Some xs, Some ys) \<Rightarrow>
          if length xs \<noteq> length ys then 0
          else (let idx = [0 ..< length xs];
                    dotProduct = foldl (\<lambda>s i. s + hourAt xs i * hourAt ys i) 0 idx;
                    normA = foldl (\<lambda>s i. s + (hourAt xs i)\<^sup>2) 0 idx;
                    normB = foldl (\<lambda>s i. s + (hourAt ys i)\<^sup>2) 0 idx
                in if normA = 0 \<or> normB = 0 then 0
                   else dotProduct / (sqrt normA * sqrt normB))
      | _ \<Rightarrow> 0)"

section \<open>Data model of the analysis view\<close>

text \<open>
  A row of \<open>daily_activity_stats\<close> and a row of \<open>room_activity_hourly\<close>, as the
  queries return them: every column is present, a missing value is JSON \<open>null\<close>.
\<close>

record day_stats =
  date :: string
  events_per_hour :: "real list option"
  total_events :: "real option"
  active_hours :: "real option"
  longest_gap_minutes :: "real option"
  night_events :: "real option"
  night_active_hours :: "real option"
  rooms_active :: "real option"
  rooms_available :: "real option"
  motion_events :: "real option"
  door_events :: "real option"
  first_activity :: "string option"
  last_activity :: "string option"

record room_row =
  room_name :: "string option"
  hour :: string
  r_motion_events :: "real option"
  r_door_events :: "real option"
  r_total_events :: "real option"

record feature =
  key :: string
  label :: string
  unit :: string
  isTime :: bool
  isDerived :: bool
  isRoomData :: bool
  weight :: real
  isRoomFeature :: bool

record feature_group =
  gid :: string
  glabel :: string
  features :: "feature list"

text \<open>A flag that a catalog entry does not mention is \<open>undefined\<close>, which reads as false.\<close>

definition feat :: "string \<Rightarrow> string \<Rightarrow> string \<Rightarrow> real \<Rightarrow> feature" where
  "feat k l u w =
     \<lparr>key = k, label = l, unit = u, isTime = False, isDerived = False, isRoomData = False,
      weight = w, isRoomFeature = False\<rparr>"

definition featureGroups :: "feature_group list" where
  "featureGroups =
     [\<lparr>gid = ''timing'', glabel = ''Tijdstip'', features =
        [(feat ''first_activity'' ''Eerste activiteit'' ''min'' 1.0)\<lparr>isTime := True\<rparr>,
         (feat ''last_activity'' ''Laatste activiteit'' ''min'' 1.0)\<lparr>isTime := True\<rparr>,
         (feat ''awake_duration'' ''Wakkere duur'' ''min'' 0.8)\<lparr>isDerived := True\<rparr>]\<rparr>,
      \<lparr>gid = ''volume'', glabel = ''Volume'', features =
        [feat ''total_events'' ''Totaal events'' [] 1.0,
         feat ''active_hours'' ''Actieve uren'' ''u'' 1.0,
         (feat ''morning_events'' ''Ochtend (06-12)'' [] 0.8)\<lparr>isDerived := True\<rparr>,
         (feat ''afternoon_events'' ''Middag (12-18)'' [] 0.8)\<lparr>isDerived := True\<rparr>,
         (feat ''evening_events'' ''Avond (18-23)'' [] 0.8)\<lparr>isDerived := True\<rparr>]\<rparr>,
      \<lparr>gid = ''gaps'', glabel = ''Rust & nacht'', features =
        [feat ''longest_gap_minutes'' ''Langste gap'' ''min'' 1.2,
         feat ''night_events'' ''Nacht events'' [] 1.0,
         feat ''night_active_hours'' ''Nacht actieve uren'' ''u'' 0.8]\<rparr>,
      \<lparr>gid = ''rooms'', glabel = ''Ruimte'', features =
        [feat ''rooms_active'' ''Actieve kamers'' [] 0.8,
         (feat ''room_ratio'' ''Kamer ratio'' [] 0.6)\<lparr>isDerived := True, isRoomFeature := True\<rparr>,
         (feat ''main_room_pct'' ''Hoofdkamer %'' ''%'' 0.6)\<lparr>isRoomData := True, isRoomFeature := True\<rparr>]\<rparr>,
      \<lparr>gid = ''devices'', glabel = ''Sensor type'', features =
        [feat ''motion_events'' ''Beweging events'' [] 0.8,
         feat ''door_events'' ''Deur events'' [] 0.8]\<rparr>,
      \<lparr>gid = ''patterns'', glabel = ''Patroon'', features =
        [(feat ''transition_count'' ''Kamerwisselingen'' [] 0.6)\<lparr>isRoomData := True, isRoomFeature := True\<rparr>,
         (feat ''activity_regularity'' ''Regelmaat score'' [] 0.6)\<lparr>isDerived := True\<rparr>]\<rparr>]"

definition allFeatures :: "feature list" where
  "allFeatures = concat (map features featureGroups)"

text \<open>
  The reactive state of the view. \<open>baselineStats\<close> is an object from keys such as
  \<open>avg_total_events\<close> to numbers, or \<open>null\<close>; a key it does not have reads \<open>undefined\<close>.
\<close>

record state =
  dayStats :: "day_stats option"
  baselineStats :: "(string \<rightharpoonup> jsnum) option"
  roomHourlyData :: "room_row list option"
  baselineRoomByDate :: "string \<rightharpoonup> room_row list"
  baselineAvgHourlyPattern :: "real list option"

definition activeFeatures :: "state \<Rightarrow> feature list" where
  "activeFeatures st =
     (let roomsAvailable =
            (case dayStats st of
               None \<Rightarrow> 0
             | Some ds \<Rightarrow> (case rooms_available ds of None \<Rightarrow> 0 | Some r \<Rightarrow> r))
      in filter (\<lambda>f. if isRoomFeature f then 1 < roomsAvailable else True) allFeatures)"

definition calculateZScore :: "jsval \<Rightarrow> jsval \<Rightarrow> jsval \<Rightarrow> jsnum" where
  "calculateZScore v mean sd =
     (if sd = Number (Fin 0) \<or> sd = Null \<or> v = Null \<or> mean = Null then Fin 0
      else js_div (js_sub (toNumber v) (toNumber mean)) (toNumber sd))"

section \<open>Feature values\<close>

text \<open>\<open>ds[feature.key]\<close> for the scalar columns and for the two time columns.\<close>

definition numberField :: "string \<Rightarrow> day_stats \<Rightarrow> real option" where
  "numberField k ds =
     (if k = ''total_events'' then total_events ds
      else if k = ''active_hours'' then active_hours ds
      else if k = ''longest_gap_minutes'' then longest_gap_minutes ds
      else if k = ''night_events'' then night_events ds
      else if k = ''night_active_hours'' then night_active_hours ds
      else if k = ''rooms_active'' then rooms_active ds
      else if k = ''motion_events'' then motion_events ds
      else if k = ''door_events'' then door_events ds
      else None)"

definition timeField :: "string \<Rightarrow> day_stats \<Rightarrow> string option" where
  "timeField k ds = (if k = ''first_activity'' then first_activity ds else last_activity ds)"

definition isNumberKey :: "string \<Rightarrow> bool" where
  "isNumberKey k =
     (k = ''total_events'' \<or> k = ''active_hours'' \<or> k = ''longest_gap_minutes'' \<or>
      k = ''night_events'' \<or> k = ''night_active_hours'' \<or> k = ''rooms_active'' \<or>
      k = ''motion_events'' \<or> k = ''door_events'')"

text \<open>\<open>x || 0\<close> for a column that is a number or \<open>null\<close>.\<close>

definition orZero :: "real option \<Rightarrow> real" where
  "orZero v = (case v of None \<Rightarrow> 0 | Some x \<Rightarrow> x)"

text \<open>
  \<open>roomTotals\<close> is an object keyed by room name (a \<open>null\<close> name is the key "null");
  it is kept as an association list in insertion order.
\<close>

definition roomKey :: "string option \<Rightarrow> string" where
  "roomKey n = (case n of None \<Rightarrow> ''null'' | Some s \<Rightarrow> s)"

fun addTotal :: "string \<Rightarrow> real \<Rightarrow> (string \<times> real) list \<Rightarrow> (string \<times> real) list" where
  "addTotal k v [] = [(k, 0 + v)]"
| "addTotal k v ((k', t) # rest) =
     (if k' = k then (k', t + v) # rest else (k', t) # addTotal k v rest)"

definition computeMainRoomPct :: "room_row list option \<Rightarrow> jsnum option" where
  "computeMainRoomPct roomData =
     (case roomData of
        None \<Rightarrow> None
      | Some rows \<Rightarrow>
          if length rows = 0 then None
          else (let roomTotals =
                      foldl (\<lambda>acc row. addTotal (roomKey (room_name row)) (orZero (r_total_events row)) acc)
                        [] rows;
                    totals = map (\<lambda>kv. Fin (snd kv)) roomTotals
                in if length totals = 0 then None
                   else (let maxRoom = Math_max totals;
                             totalAll = js_sum totals
                         in if totalAll = Fin 0 then None
                            else Some (Math_round (js_mul (js_div maxRoom totalAll) (Fin 100))))))"

text \<open>The dominant room of one hour: the first row with the strictly largest count.\<close>

definition dominantRoom :: "room_row list \<Rightarrow> string option" where
  "dominantRoom rows =
     fst (foldl (\<lambda>acc r. if snd acc < orZero (r_total_events r)
                          then (room_name r, orZero (r_total_events r)) else acc)
            (None, 0) rows)"

fun countTransitions :: "string option list \<Rightarrow> nat" where
  "countTransitions (a # b # rest) = (if b \<noteq> a then 1 else 0) + countTransitions (b # rest)"
| "countTransitions _ = 0"

text \<open>
  \<open>Date_ms s\<close> stands for \<open>new Date(s)\<close> as milliseconds, for the timestamps the
  database returns; it is a parameter. The array sort of JavaScript is stable, as
  \<open>sort_key\<close> is. The keys of \<open>hourGroups\<close> are then sorted as strings.
\<close>

definition computeTransitionCount :: "(string \<Rightarrow> real) \<Rightarrow> room_row list option \<Rightarrow> jsnum option" where
  "computeTransitionCount Date_ms roomData =
     (case roomData of
        None \<Rightarrow> None
      | Some rows \<Rightarrow>
          if length rows = 0 then None
          else (let sorted = sort_key (\<lambda>r. Date_ms (hour r)) rows;
                    hourKeys = sort (remdups (map hour sorted));
                    dominantRooms =
                      filter (\<lambda>n. \<not> absent n)
                        (map (\<lambda>hk. dominantRoom (filter (\<lambda>r. hour r = hk) sorted)) hourKeys)
                in Some (Fin (real (countTransitions dominantRooms)))))"

definition getTodayValue :: "(string \<Rightarrow> real) \<Rightarrow> state \<Rightarrow> feature \<Rightarrow> jsnum option" where
  "getTodayValue Date_ms st feature =
     (case dayStats st of
        None \<Rightarrow> None
      | Some ds \<Rightarrow>
          (let k = key feature in
           if k = ''first_activity'' \<or> k = ''last_activity'' then Some (timeToMinutes (timeField k ds))
           else if isNumberKey k then map_option Fin (numberField k ds)
           else if k = ''morning_events'' then Some (Fin (sumEventsInRange (events_per_hour ds) 6 11))
           else if k = ''afternoon_events'' then Some (Fin (sumEventsInRange (events_per_hour ds) 12 17))
           else if k = ''evening_events'' then Some (Fin (sumEventsInRange (events_per_hour ds) 18 22))
           else if k = ''awake_duration'' then awakeDuration (first_activity ds) (last_activity ds)
           else if k = ''room_ratio'' then
             (if orZero (rooms_available ds) = 0 then None
              else Some (js_div (Fin (orZero (rooms_active ds))) (Fin (orZero (rooms_available ds)))))
           else if k = ''main_room_pct'' then computeMainRoomPct (roomHourlyData st)
           else if k = ''transition_count'' then computeTransitionCount Date_ms (roomHourlyData st)
           else if k = ''activity_regularity'' then
             (if events_per_hour ds = None \<or> baselineAvgHourlyPattern st = None then None
              else Some (Fin (cosineSimilarity (events_per_hour ds) (baselineAvgHourlyPattern st))))
           else None))"

definition getHistoricalValue ::
  "(string \<Rightarrow> real) \<Rightarrow> state \<Rightarrow> feature \<Rightarrow> day_stats \<Rightarrow> room_row list \<Rightarrow> jsnum option" where
  "getHistoricalValue Date_ms st feature day roomData =
     (let k = key feature in
      if k = ''first_activity'' \<or> k = ''last_activity'' then
        (let v = timeToMinutes (timeField k day)
         in if v = Fin 0 \<and> absent (timeField k day) then None else Some v)
      else if isNumberKey k then map_option Fin (numberField k day)
      else if k = ''morning_events'' then Some (Fin (sumEventsInRange (events_per_hour day) 6 11))
      else if k = ''afternoon_events'' then Some (Fin (sumEventsInRange (events_per_hour day) 12 17))
      else if k = ''evening_events'' then Some (Fin (sumEventsInRange (events_per_hour day) 18 22))
      else if k = ''awake_duration'' then awakeDuration (first_activity day) (last_activity day)
      else if k = ''room_ratio'' then
        (if orZero (rooms_available day) = 0 then None
         else Some (js_div (Fin (orZero (rooms_active day))) (Fin (orZero (rooms_available day)))))
      else if k = ''main_room_pct'' then computeMainRoomPct (Some roomData)
      else if k = ''transition_count'' then computeTransitionCount Date_ms (Some roomData)
      else if k = ''activity_regularity'' then
        (if events_per_hour day = None \<or> baselineAvgHourlyPattern st = None then None
         else Some (Fin (cosineSimilarity (events_per_hour day) (baselineAvgHourlyPattern st))))
      else None)"

section \<open>Score\<close>

datatype severity = High | Medium | Low

text \<open>
  A row of \<open>scoreBreakdown\<close>. The fields that only hold display text (\<open>todayValue\<close>,
  \<open>baselineValue\<close>, \<open>stddev\<close>, \<open>zScoreDisplay\<close>) are left out.
\<close>

record score_row =
  r_key :: string
  r_label :: string
  r_weight :: real
  zScore :: jsnum
  severity :: severity

definition statsAt :: "state \<Rightarrow> string \<Rightarrow> jsval" where
  "statsAt st k =
     (case baselineStats st of
        None \<Rightarrow> Undefined
      | Some stats \<Rightarrow> (case stats k of None \<Rightarrow> Undefined | Some v \<Rightarrow> Number v))"

definition avgKey :: "feature \<Rightarrow> string" where
  "avgKey feature =
     (if isTime feature then ''avg_'' @ key feature @ ''_minutes'' else ''avg_'' @ key feature)"

definition stdKey :: "feature \<Rightarrow> string" where
  "stdKey feature =
     (if isTime feature then ''std_'' @ key feature @ ''_minutes'' else ''std_'' @ key feature)"

definition scoreRow :: "(string \<Rightarrow> real) \<Rightarrow> state \<Rightarrow> feature \<Rightarrow> score_row" where
  "scoreRow Date_ms st feature =
     (let todayValue = getTodayValue Date_ms st feature;
          baselineValue = statsAt st (avgKey feature);
          stddevValue = statsAt st (stdKey feature);
          z = calculateZScore (nullable todayValue) baselineValue stddevValue;
          absZ = js_abs z
      in \<lparr>r_key = key feature, r_label = label feature, r_weight = weight feature, zScore = z,
          severity = (if js_lt (Fin 2) absZ then High else if js_lt (Fin 1) absZ then Medium else Low)\<rparr>)"

definition scoreBreakdown :: "(string \<Rightarrow> real) \<Rightarrow> state \<Rightarrow> score_row list" where
  "scoreBreakdown Date_ms st =
     (if dayStats st = None \<or> baselineStats st = None then []
      else map (scoreRow Date_ms st) (activeFeatures st))"

definition validScores :: "score_row list \<Rightarrow> score_row list" where
  "validScores rows = filter (\<lambda>s. \<not> isNaN (zScore s)) rows"

definition anomalyScore :: "score_row list \<Rightarrow> jsnum" where
  "anomalyScore rows =
     (if length rows = 0 then Fin 0
      else if length (validScores rows) = 0 then Fin 0
      else (let maxAbsZ = Math_max (map (\<lambda>s. js_abs (zScore s)) (validScores rows));
                totalWeight = foldl (\<lambda>sum s. js_add sum (Fin (r_weight s))) (Fin 0) (validScores rows);
                weightedAvgZ =
                  js_div (foldl (\<lambda>sum s. js_add sum (js_mul (js_abs (zScore s)) (Fin (r_weight s))))
                            (Fin 0) (validScores rows))
                    totalWeight
            in js_min (Fin 1)
                 (js_div (js_add (js_mul (Fin (6 / 10)) maxAbsZ) (js_mul (Fin (4 / 10)) weightedAvgZ))
                    (Fin 3))))"



section \<open>Baseline\<close>

text \<open>The statistics of one feature over the days of the window, added to \<open>stats\<close>.\<close>

definition historicalValues ::
  "(string \<Rightarrow> real) \<Rightarrow> state \<Rightarrow> (string \<rightharpoonup> room_row list) \<Rightarrow> day_stats list \<Rightarrow> feature \<Rightarrow> jsnum list" where
  "historicalValues Date_ms st roomByDate dailyData feature =
     concat (map (\<lambda>day.
        (case getHistoricalValue Date_ms st feature day
                (case roomByDate (date day) of None \<Rightarrow> [] | Some rs \<Rightarrow> rs) of
           None \<Rightarrow> []
         | Some v \<Rightarrow> if isNaN v then [] else [v])) dailyData)"

definition featureStats :: "jsnum list \<Rightarrow> feature \<Rightarrow> (string \<rightharpoonup> jsnum) \<Rightarrow> (string \<rightharpoonup> jsnum)" where
  "featureStats values feature stats =
     (if 0 < length values then
        (let mean = js_div (js_sum values) (Fin (real (length values)));
             variance =
               js_div (foldl (\<lambda>sum v. js_add sum (js_mul (js_sub v mean) (js_sub v mean))) (Fin 0) values)
                 (Fin (real (length values)));
             std = Math_sqrt variance;
             suffix = (if isTime feature then ''_minutes'' else [])
         in stats(''avg_'' @ key feature @ suffix \<mapsto> mean,
                  ''std_'' @ key feature @ suffix \<mapsto> or_else std (Fin 1),
                  ''min_'' @ key feature @ suffix \<mapsto> Math_min values,
                  ''max_'' @ key feature @ suffix \<mapsto> Math_max values))
      else stats)"

definition averagePattern :: "day_stats list \<Rightarrow> real list option" where
  "averagePattern dailyData =
     (let hourlyPatterns =
            concat (map (\<lambda>d. (case events_per_hour d of
                                 None \<Rightarrow> []
                               | Some e \<Rightarrow> if length e = 24 then [e] else [])) dailyData)
      in if 0 < length hourlyPatterns then
           Some (map (\<lambda>v. v / real (length hourlyPatterns))
                   (foldl (\<lambda>avgPattern pattern.
                             map (\<lambda>ah. fst ah + hourAt pattern (snd ah)) (zip avgPattern [0 ..< 24]))
                      (replicate 24 0) hourlyPatterns))
         else None)"

definition groupByDate :: "room_row list option \<Rightarrow> (string \<rightharpoonup> room_row list)" where
  "groupByDate roomData =
     (case roomData of
        None \<Rightarrow> Map.empty
      | Some rows \<Rightarrow>
          foldl (\<lambda>roomByDate row.
                   roomByDate(take 10 (hour row) \<mapsto>
                     (case roomByDate (take 10 (hour row)) of None \<Rightarrow> [] | Some rs \<Rightarrow> rs) @ [row]))
            Map.empty rows)"

text \<open>
  \<open>loadBaselineStats\<close> for a selected household, given what the two queries returned:
  the days of the window (\<open>None\<close> for an error or no data) and the room rows of the
  window. It updates the state.
\<close>

definition loadBaselineStats ::
  "(string \<Rightarrow> real) \<Rightarrow> day_stats list option \<Rightarrow> room_row list option \<Rightarrow> state \<Rightarrow> state" where
  "loadBaselineStats Date_ms dailyData roomData st =
     (case dailyData of
        None \<Rightarrow> st\<lparr>baselineStats := None\<rparr>
      | Some days \<Rightarrow>
          if length days = 0 then st\<lparr>baselineStats := None\<rparr>
          else (let st1 = st\<lparr>baselineAvgHourlyPattern := averagePattern days\<rparr>;
                    roomByDate = groupByDate roomData;
                    st2 = st1\<lparr>baselineRoomByDate := roomByDate\<rparr>;
                    stats = foldl (\<lambda>stats feature.
                                     featureStats (historicalValues Date_ms st2 roomByDate days feature)
                                       feature stats)
                              Map.empty allFeatures
                in st2\<lparr>baselineStats := Some (stats(''daysCount'' \<mapsto> Fin (real (length days))))\<rparr>))"

text \<open>
  \<open>loadDayStats\<close> and \<open>loadRoomHourlyData\<close>, given what their queries returned without an
  error: the record of the selected day or \<open>null\<close>, and the room rows of that day.
\<close>

definition loadDayStats :: "day_stats option \<Rightarrow> state \<Rightarrow> state" where
  "loadDayStats data st = st\<lparr>dayStats := data\<rparr>"

definition loadRoomHourlyData :: "room_row list option \<Rightarrow> state \<Rightarrow> state" where
  "loadRoomHourlyData data st =
     st\<lparr>roomHourlyData := Some (case data of None \<Rightarrow> [] | Some rows \<Rightarrow> rows)\<rparr>"

section \<open>Notions of the specification\<close>

text \<open>
  A decimal digit and its value; a time string \<open>HH:MM\<close> or \<open>HH:MM:SS\<close> (two digits,
  a colon, two digits, and possibly a colon and two more digits) and the minutes it
  denotes.
\<close>

definition isDigit :: "char \<Rightarrow> bool" where
  "isDigit c = isRadixDigit 10 c"

definition digitOf :: "char \<Rightarrow> nat" where
  "digitOf c = (case digitVal c of None \<Rightarrow> 0 | Some d \<Rightarrow> d)"

fun isSecondsPart :: "string \<Rightarrow> bool" where
  "isSecondsPart [] = True"
| "isSecondsPart [c, g, h] = (c = CHR '':'' \<and> isDigit g \<and> isDigit h)"
| "isSecondsPart _ = False"

fun isTimeString :: "string \<Rightarrow> bool" where
  "isTimeString (a # b # c # d # e # rest) =
     (isDigit a \<and> isDigit b \<and> c = CHR '':'' \<and> isDigit d \<and> isDigit e \<and> isSecondsPart rest)"
| "isTimeString _ = False"

fun minutesOf :: "string \<Rightarrow> nat" where
  "minutesOf (a # b # c # d # e # rest) =
     60 * (10 * digitOf a + digitOf b) + (10 * digitOf d + digitOf e)"
| "minutesOf _ = 0"

text \<open>
  The aggregate of the specification over a list of scored rows with finite z-scores:
  the largest \<open>|z|\<close>, the mean of \<open>|z|\<close> weighted by the rows' weights, and the clamp.
\<close>

definition isFinite :: "jsnum \<Rightarrow> bool" where
  "isFinite v = (case v of Fin x \<Rightarrow> True | _ \<Rightarrow> False)"

text \<open>A number that is not an infinity.\<close>

definition finOrNaN :: "jsnum \<Rightarrow> bool" where
  "finOrNaN v = (isFinite v \<or> isNaN v)"

definition absZ :: "score_row \<Rightarrow> real" where
  "absZ r = (case zScore r of Fin z \<Rightarrow> \<bar>z\<bar> | _ \<Rightarrow> 0)"

definition maxAbsZ :: "score_row list \<Rightarrow> real" where
  "maxAbsZ rs = Max (set (map absZ rs))"




text \<open>The three room features.\<close>

definition isRoomKey :: "string \<Rightarrow> bool" where
  "isRoomKey k = (k = ''room_ratio'' \<or> k = ''main_room_pct'' \<or> k = ''transition_count'')"

section \<open>Example inputs\<close>

text \<open>
  A day of a household with one room, and a clock for the timestamps of a single day.
\<close>

definition hourOfDay_ms :: "string \<Rightarrow> real" where
  "hourOfDay_ms s = (case parseInt (take 2 (drop 11 s)) of Fin h \<Rightarrow> 3600000 * h | _ \<Rightarrow> 0)"

definition exampleDay :: day_stats where
  "exampleDay =
     \<lparr>date = ''2024-03-15'',
      events_per_hour = Some [0, 0, 0, 0, 0, 0, 1, 4, 6, 5, 3, 2, 4, 5, 3, 2, 2, 4, 5, 3, 1, 0, 0, 0],
      total_events = Some 50, active_hours = Some 15, longest_gap_minutes = Some 95,
      night_events = Some 0, night_active_hours = Some 0, rooms_active = Some 1,
      rooms_available = Some 1, motion_events = Some 42, door_events = Some 8,
      first_activity = Some ''06:40'', last_activity = Some ''20:55:10''\<rparr>"




text \<open>
  The state before anything is loaded, two days of history, and the state after the
  three loaders have run on these two days, no room rows, and a given record of today.
\<close>

definition emptyState :: state where
  "emptyState =
     \<lparr>dayStats = None, baselineStats = None, roomHourlyData = None,
      baselineRoomByDate = Map.empty, baselineAvgHourlyPattern = None\<rparr>"

definition historyDay1 :: day_stats where
  "historyDay1 =
     \<lparr>date = ''2024-03-13'', events_per_hour = None,
      total_events = Some 0, active_hours = None, longest_gap_minutes = None,
      night_events = None, night_active_hours = None, rooms_active = Some 1,
      rooms_available = Some 1, motion_events = None, door_events = None,
      first_activity = None, last_activity = None\<rparr>"

definition historyDay2 :: day_stats where
  "historyDay2 = historyDay1\<lparr>date := ''2024-03-14'', total_events := Some 1\<rparr>"

definition loadedState :: "day_stats \<Rightarrow> state" where
  "loadedState today =
     loadDayStats (Some today)
       (loadRoomHourlyData (Some [])
          (loadBaselineStats hourOfDay_ms (Some [historyDay1, historyDay2]) (Some []) emptyState))"

text \<open>
  One day of history that only has an hourly array (one event at 8, 13 and 19 h), a day
  with two events at 9, 14 and 20 h, and the state after the three loaders have run on them.
\<close>

definition patternDay :: day_stats where
  "patternDay =
     \<lparr>date = ''2024-03-14'',
      events_per_hour = Some [0, 0, 0, 0, 0, 0, 0, 0, 1, 0, 0, 0, 0, 1, 0, 0, 0, 0, 0, 1, 0, 0, 0, 0],
      total_events = None, active_hours = None, longest_gap_minutes = None,
      night_events = None, night_active_hours = None, rooms_active = None,
      rooms_available = None, motion_events = None, door_events = None,
      first_activity = None, last_activity = None\<rparr>"

definition shiftedDay :: day_stats where
  "shiftedDay =
     \<lparr>date = ''2024-03-15'',
      events_per_hour = Some [0, 0, 0, 0, 0, 0, 0, 0, 0, 2, 0, 0, 0, 0, 2, 0, 0, 0, 0, 0, 2, 0, 0, 0],
      total_events = Some 6, active_hours = Some 3, longest_gap_minutes = Some 360,
      night_events = Some 0, night_active_hours = Some 0, rooms_active = Some 1,
      rooms_available = Some 1, motion_events = Some 5, door_events = Some 1,
      first_activity = Some ''09:05'', last_activity = Some ''20:40''\<rparr>"

definition unitState :: state where
  "unitState =
     loadDayStats (Some shiftedDay)
       (loadRoomHourlyData (Some [])
          (loadBaselineStats hourOfDay_ms (Some [patternDay]) (Some []) emptyState))"

section \<open>Parsing and formatting times\<close>

lemma isDigit_cases:
  "isDigit c \<Longrightarrow> c = CHR ''0'' \<or> c = CHR ''1'' \<or> c = CHR ''2'' \<or> c = CHR ''3'' \<or> c = CHR ''4''
     \<or> c = CHR ''5'' \<or> c = CHR ''6'' \<or> c = CHR ''7'' \<or> c = CHR ''8'' \<or> c = CHR ''9''"
  by (simp add: isDigit_def isRadixDigit_def digitVal_def split: if_splits)

lemma isDigit_facts:
  assumes "isDigit c"
  shows "c \<noteq> CHR '':''" "\<not> isWhiteSpace c" "c \<noteq> CHR ''+''" "c \<noteq> CHR ''-''"
    "c \<noteq> CHR ''x''" "c \<noteq> CHR ''X''" "isRadixDigit 10 c"
  using isDigit_cases[OF assms] assms
  by (auto simp: isWhiteSpace_def isDigit_def)

lemma parseInt_two_digits:
  assumes "isDigit a" "isDigit b"
  shows "parseInt [a, b] = Fin (real (10 * digitOf a + digitOf b))"
  using isDigit_facts[OF assms(1)] isDigit_facts[OF assms(2)]
  by (simp add: parseInt_def mathInt_def digitOf_def Let_def)

lemma split_on_digits2:
  assumes "isDigit a" "isDigit b"
  shows "split_on (CHR '':'') (a # b # CHR '':'' # rest) = [a, b] # split_on (CHR '':'') rest"
  using isDigit_facts(1)[OF assms(1)] isDigit_facts(1)[OF assms(2)]
  by simp

lemma split_on_digits2_end:
  assumes "isDigit a" "isDigit b"
  shows "split_on (CHR '':'') [a, b] = [[a, b]]"
  using isDigit_facts(1)[OF assms(1)] isDigit_facts(1)[OF assms(2)]
  by simp

lemma timeToMinutes_hhmm:
  assumes "isDigit a" "isDigit b" "isDigit c" "isDigit d"
  shows "timeToMinutes (Some [a, b, CHR '':'', c, d]) =
         Fin (real (60 * (10 * digitOf a + digitOf b) + (10 * digitOf c + digitOf d)))"
  using assms
  by (simp add: timeToMinutes_def absent_def split_on_digits2 split_on_digits2_end
      parseIntAt_def parseInt_two_digits Let_def del: split_on.simps)

lemma timeToMinutes_hhmmss:
  assumes "isDigit a" "isDigit b" "isDigit c" "isDigit d" "isDigit e" "isDigit f"
  shows "timeToMinutes (Some [a, b, CHR '':'', c, d, CHR '':'', e, f]) =
         Fin (real (60 * (10 * digitOf a + digitOf b) + (10 * digitOf c + digitOf d)))"
  using assms
  by (simp add: timeToMinutes_def absent_def split_on_digits2 split_on_digits2_end
      parseIntAt_def parseInt_two_digits Let_def del: split_on.simps)

lemma isSecondsPart_cases:
  "isSecondsPart r \<Longrightarrow> r = [] \<or> (\<exists>g h. r = [CHR '':'', g, h] \<and> isDigit g \<and> isDigit h)"
  by (cases r rule: isSecondsPart.cases) auto

lemma timeToMinutes_isTimeString:
  assumes "isTimeString t"
  shows "timeToMinutes (Some t) = Fin (real (minutesOf t))"
proof -
  from assms obtain a b c d rest where t: "t = a # b # CHR '':'' # c # d # rest"
    and dig: "isDigit a" "isDigit b" "isDigit c" "isDigit d" and sec: "isSecondsPart rest"
    by (cases t rule: isTimeString.cases) auto
  from isSecondsPart_cases[OF sec] show ?thesis
  proof
    assume "rest = []"
    with t dig show ?thesis using timeToMinutes_hhmm[of a b c d] by simp
  next
    assume "\<exists>g h. rest = [CHR '':'', g, h] \<and> isDigit g \<and> isDigit h"
    then obtain g h where "rest = [CHR '':'', g, h]" "isDigit g" "isDigit h" by blast
    with t dig show ?thesis using timeToMinutes_hhmmss[of a b c d g h] by simp
  qed
qed

lemma isTimeString_not_absent: "isTimeString t \<Longrightarrow> \<not> absent (Some t)"
  by (cases t) (auto simp: absent_def)

lemma digitVal_digitChar: "d < 10 \<Longrightarrow> digitVal (digitChar d) = Some d"
  by (simp add: digitVal_def digitChar_def)

lemma isDigit_digitChar: "d < 10 \<Longrightarrow> isDigit (digitChar d)"
  by (simp add: isDigit_def isRadixDigit_def digitVal_digitChar)

lemma digitOf_digitChar: "d < 10 \<Longrightarrow> digitOf (digitChar d) = d"
  by (simp add: digitOf_def digitVal_digitChar)

lemma showNat_two:
  assumes "n < 100"
  shows "padStart 2 (CHR ''0'') (showNat n) = [digitChar (n div 10), digitChar (n mod 10)]"
proof (cases "n < 10")
  case True
  then show ?thesis
    by (simp add: showNat.simps[of n] padStart_def digitChar_def)
next
  case False
  with assms have "n div 10 < 10" by simp
  with False show ?thesis
    by (simp add: showNat.simps[of n] showNat.simps[of "n div 10"] padStart_def)
qed

lemma String_of_nat: "String_of (Fin (real n)) = showNat n"
  by simp

lemma floor_div60:
  assumes "0 \<le> m"
  shows "Math_floor (js_div (Fin (of_int m)) (Fin 60)) = Fin (real (nat (m div 60)))"
proof -
  have "\<lfloor>real_of_int m / 60\<rfloor> = m div 60"
    using floor_divide_of_int_eq[of m 60, where ?'a = real] by simp
  moreover have "0 \<le> m div 60" using assms by simp
  ultimately show ?thesis by simp
qed

lemma rem60:
  assumes "0 \<le> m"
  shows "Math_round (js_rem (Fin (of_int m)) (Fin 60)) = Fin (real (nat (m mod 60)))"
proof -
  have fl: "\<lfloor>real_of_int m / 60\<rfloor> = m div 60"
    using floor_divide_of_int_eq[of m 60, where ?'a = real] by simp
  have nn: "0 \<le> real_of_int m / 60" using assms by simp
  have "real_of_int m - 60 * of_int (trunc (real_of_int m / 60)) = of_int (m - 60 * (m div 60))"
    using nn fl by (simp add: trunc_def)
  also have "m - 60 * (m div 60) = m mod 60"
    by (simp add: minus_mult_div_eq_mod)
  finally have r: "js_rem (Fin (of_int m)) (Fin 60) = Fin (of_int (m mod 60))"
    by simp
  have "\<lfloor>real_of_int (m mod 60) + 1 / 2\<rfloor> = m mod 60"
    by linarith
  moreover have "0 \<le> m mod 60" by simp
  ultimately show ?thesis using r by simp
qed

lemma formatMinutesToTime_digits:
  assumes "0 \<le> m" "m \<le> 1439"
  shows "formatMinutesToTime (Some (Fin (of_int m))) =
     Some [digitChar (nat (m div 60) div 10), digitChar (nat (m div 60) mod 10), CHR '':'',
           digitChar (nat (m mod 60) div 10), digitChar (nat (m mod 60) mod 10)]"
proof -
  have h: "nat (m div 60) < 100" using assms by simp
  have mm: "nat (m mod 60) < 100" using assms by simp
  show ?thesis
    unfolding formatMinutesToTime_def
    by (simp only: option.case Let_def floor_div60[OF assms(1)] rem60[OF assms(1)]
        String_of_nat showNat_two[OF h] showNat_two[OF mm]) simp
qed

text \<open>
  C9. For every integer \<open>m\<close> from 0 to 1439, formatting \<open>m\<close> minutes as a time and
  parsing the result gives \<open>m\<close> back.
\<close>

theorem timeToMinutes_formatMinutesToTime:
  assumes "0 \<le> m" "m \<le> 1439"
  shows "timeToMinutes (formatMinutesToTime (Some (Fin (of_int m)))) = Fin (of_int m)"
proof -
  let ?h = "nat (m div 60)" and ?r = "nat (m mod 60)"
  have h: "?h < 100" and r: "?r < 100" using assms by simp_all
  have d: "?h div 10 < 10" "?h mod 10 < 10" "?r div 10 < 10" "?r mod 10 < 10"
    using h r by simp_all
  have "timeToMinutes (formatMinutesToTime (Some (Fin (of_int m)))) =
        Fin (real (60 * (10 * (?h div 10) + ?h mod 10) + (10 * (?r div 10) + ?r mod 10)))"
    by (simp only: formatMinutesToTime_digits[OF assms] timeToMinutes_hhmm isDigit_digitChar d
        digitOf_digitChar)
  also have "60 * (10 * (?h div 10) + ?h mod 10) + (10 * (?r div 10) + ?r mod 10) = 60 * ?h + ?r"
    by simp
  finally have e: "timeToMinutes (formatMinutesToTime (Some (Fin (of_int m)))) =
      Fin (real (60 * ?h + ?r))" .
  have p: "0 \<le> m div 60" "0 \<le> m mod 60" using assms by simp_all
  have "int (60 * ?h + ?r) = 60 * (m div 60) + m mod 60" using p by simp
  also have "\<dots> = m" by simp
  finally have "int (60 * ?h + ?r) = m" .
  hence "real (60 * ?h + ?r) = of_int m"
    by (metis of_int_of_nat_eq)
  with e show ?thesis by simp
qed

theorem timeToMinutes_formatMinutesToTime_witness:
  "(0::int) \<le> 1439 \<and> (1439::int) \<le> 1439 \<and>
   formatMinutesToTime (Some (Fin (of_int 1439))) = Some ''23:59'' \<and>
   timeToMinutes (Some ''23:59'') = Fin (of_int 1439)"
proof -
  have f: "formatMinutesToTime (Some (Fin (of_int 1439))) = Some ''23:59''"
    using formatMinutesToTime_digits[of 1439] by (simp add: digitChar_def)
  show ?thesis
    using timeToMinutes_formatMinutesToTime[of 1439] f by simp
qed

text \<open>
  C10. A seconds component is dropped without rounding: a time string \<open>HH:MM:SS\<close>
  parses to \<open>60 * HH + MM\<close>, whatever the two digits of the seconds are, which is what
  the string \<open>HH:MM\<close> parses to.
\<close>

theorem timeToMinutes_ignores_seconds:
  assumes "isDigit a" "isDigit b" "isDigit c" "isDigit d" "isDigit e" "isDigit f"
  shows "timeToMinutes (Some [a, b, CHR '':'', c, d, CHR '':'', e, f]) =
           Fin (real (60 * (10 * digitOf a + digitOf b) + (10 * digitOf c + digitOf d)))
       \<and> timeToMinutes (Some [a, b, CHR '':'', c, d, CHR '':'', e, f]) =
           timeToMinutes (Some [a, b, CHR '':'', c, d])"
  using assms by (simp only: timeToMinutes_hhmmss timeToMinutes_hhmm)

theorem timeToMinutes_ignores_seconds_witness:
  "isDigit (CHR ''0'') \<and> isDigit (CHR ''8'') \<and> isDigit (CHR ''3'') \<and> isDigit (CHR ''5'') \<and>
   isDigit (CHR ''9'') \<and>
   timeToMinutes (Some ''08:30:59'') = Fin 510 \<and>
   timeToMinutes (Some ''08:30:59'') = timeToMinutes (Some ''08:30'')"
proof -
  have d: "isDigit (CHR ''0'')" "isDigit (CHR ''8'')" "isDigit (CHR ''3'')" "isDigit (CHR ''5'')"
    "isDigit (CHR ''9'')"
    by (simp_all add: isDigit_def isRadixDigit_def digitVal_def)
  have v: "60 * (10 * digitOf (CHR ''0'') + digitOf (CHR ''8'')) +
      (10 * digitOf (CHR ''3'') + digitOf (CHR ''0'')) = 510"
    by (simp add: digitOf_def digitVal_def)
  show ?thesis
    using timeToMinutes_ignores_seconds[OF d(1) d(2) d(3) d(1) d(4) d(5)] d
    unfolding v by auto
qed

section \<open>Arithmetic of the score\<close>

lemma js_add_NaN [simp]: "js_add x NaN = NaN" "js_add NaN x = NaN"
  by (cases x; simp)+

lemma js_mul_NaN [simp]: "js_mul x NaN = NaN" "js_mul NaN x = NaN"
  by (cases x; simp)+

lemma js_div_NaN [simp]: "js_div x NaN = NaN" "js_div NaN x = NaN"
  by (cases x; simp)+

lemma js_sub_NaN [simp]: "js_sub x NaN = NaN" "js_sub NaN x = NaN"
  by (simp_all add: js_sub_def)

lemma js_sub_Fin [simp]: "js_sub (Fin x) (Fin y) = Fin (x - y)"
  by (simp add: js_sub_def)

lemma calculateZScore_no_baseline [simp]: "calculateZScore (Number v) Undefined Undefined = NaN"
  by (simp add: calculateZScore_def)

lemma calculateZScore_no_value [simp]: "calculateZScore Null m s = Fin 0"
  by (simp add: calculateZScore_def)

lemma isFinite_Fin: "isFinite v \<Longrightarrow> \<exists>x. v = Fin x"
  by (cases v) (simp_all add: isFinite_def)


lemma js_max_Fin [simp]: "js_max (Fin a) (Fin b) = Fin (max a b)"
  by (simp add: js_max_def max_def)

lemma js_min_Fin [simp]: "js_min (Fin a) (Fin b) = Fin (min a b)"
  by (simp add: js_min_def min_def)

lemma js_max_NInf_Fin [simp]: "js_max NInf (Fin b) = Fin b"
  by (simp add: js_max_def)


























section \<open>Feature values and baseline entries are never infinite\<close>

lemma finOrNaN_simps [simp]: "finOrNaN (Fin x)" "finOrNaN NaN" "\<not> finOrNaN PInf" "\<not> finOrNaN NInf"
  by (simp_all add: finOrNaN_def isFinite_def)




























section \<open>Evaluation of the examples\<close>

lemmas eval_hist = historicalValues_def getHistoricalValue_def isNumberKey_def numberField_def
  timeField_def timeToMinutes_def absent_def awakeDuration_def sumEventsInRange_def
  computeMainRoomPct_def computeTransitionCount_def orZero_def Let_def

lemmas eval_load = featureStats_def js_sum_def or_else_def real_sqrt_divide groupByDate_def
  averagePattern_def Math_min_def Math_max_def feat_def

lemmas eval_time = timeToMinutes_def absent_def parseIntAt_def parseInt_def mathInt_def
  isWhiteSpace_def isRadixDigit_def digitVal_def Let_def







lemmas eval_today = getTodayValue_def isNumberKey_def numberField_def timeField_def nullable_def
  sumEventsInRange_def hourAt_def

lemma allFeatures_3: "allFeatures ! 3 = feat ''total_events'' ''Totaal events'' [] 1"
  by (simp add: allFeatures_def featureGroups_def)

lemma allFeatures_4: "allFeatures ! 4 = feat ''active_hours'' ''Actieve uren'' ''u'' 1"
  by (simp add: allFeatures_def featureGroups_def)

lemma allFeatures_8: "allFeatures ! 8 = feat ''longest_gap_minutes'' ''Langste gap'' ''min'' (12 / 10)"
  by (simp add: allFeatures_def featureGroups_def)

lemma js_min_PInf_Fin [simp]: "js_min PInf (Fin x) = Fin x"
  by (simp add: js_min_def)

lemma loadedState_dayStats [simp]: "dayStats (loadedState today) = Some today"
  by (simp add: loadedState_def loadDayStats_def)

lemma loadedState_roomHourlyData [simp]: "roomHourlyData (loadedState today) = Some []"
  by (simp add: loadedState_def loadDayStats_def loadRoomHourlyData_def)

lemma loadedState_pattern [simp]: "baselineAvgHourlyPattern (loadedState today) = None"
  by (simp add: loadedState_def loadDayStats_def loadRoomHourlyData_def loadBaselineStats_def
      averagePattern_def historyDay1_def historyDay2_def emptyState_def Let_def)

lemma loadedState_loaded:
  "baselineStats (loadedState today) =
   baselineStats (loadBaselineStats hourOfDay_ms (Some [historyDay1, historyDay2]) (Some []) emptyState)"
  by (simp add: loadedState_def loadDayStats_def loadRoomHourlyData_def)

lemma loadedState_baselineStats:
  "baselineStats (loadedState today) =
   Some [''avg_total_events'' \<mapsto> Fin (1 / 2), ''std_total_events'' \<mapsto> Fin (1 / 2),
         ''min_total_events'' \<mapsto> Fin 0, ''max_total_events'' \<mapsto> Fin 1,
         ''avg_morning_events'' \<mapsto> Fin 0, ''std_morning_events'' \<mapsto> Fin 1,
         ''min_morning_events'' \<mapsto> Fin 0, ''max_morning_events'' \<mapsto> Fin 0,
         ''avg_afternoon_events'' \<mapsto> Fin 0, ''std_afternoon_events'' \<mapsto> Fin 1,
         ''min_afternoon_events'' \<mapsto> Fin 0, ''max_afternoon_events'' \<mapsto> Fin 0,
         ''avg_evening_events'' \<mapsto> Fin 0, ''std_evening_events'' \<mapsto> Fin 1,
         ''min_evening_events'' \<mapsto> Fin 0, ''max_evening_events'' \<mapsto> Fin 0,
         ''avg_rooms_active'' \<mapsto> Fin 1, ''std_rooms_active'' \<mapsto> Fin 1,
         ''min_rooms_active'' \<mapsto> Fin 1, ''max_rooms_active'' \<mapsto> Fin 1,
         ''avg_room_ratio'' \<mapsto> Fin 1, ''std_room_ratio'' \<mapsto> Fin 1,
         ''min_room_ratio'' \<mapsto> Fin 1, ''max_room_ratio'' \<mapsto> Fin 1,
         ''daysCount'' \<mapsto> Fin 2]"
  apply (simp add: loadedState_loaded loadBaselineStats_def allFeatures_def featureGroups_def)
  apply (simp add: eval_hist eval_load historyDay1_def historyDay2_def)
  done

lemma loadedState_rows:
  "scoreBreakdown D (loadedState (exampleDay\<lparr>longest_gap_minutes := None\<rparr>)) =
   [\<lparr>r_key = ''first_activity'', r_label = ''Eerste activiteit'', r_weight = 1,
      zScore = NaN, severity = Low\<rparr>,
    \<lparr>r_key = ''last_activity'', r_label = ''Laatste activiteit'', r_weight = 1,
      zScore = NaN, severity = Low\<rparr>,
    \<lparr>r_key = ''awake_duration'', r_label = ''Wakkere duur'', r_weight = 4 / 5,
      zScore = NaN, severity = Low\<rparr>,
    \<lparr>r_key = ''total_events'', r_label = ''Totaal events'', r_weight = 1,
      zScore = Fin 99, severity = High\<rparr>,
    \<lparr>r_key = ''active_hours'', r_label = ''Actieve uren'', r_weight = 1,
      zScore = NaN, severity = Low\<rparr>,
    \<lparr>r_key = ''morning_events'', r_label = ''Ochtend (06-12)'', r_weight = 4 / 5,
      zScore = Fin 21, severity = High\<rparr>,
    \<lparr>r_key = ''afternoon_events'', r_label = ''Middag (12-18)'', r_weight = 4 / 5,
      zScore = Fin 20, severity = High\<rparr>,
    \<lparr>r_key = ''evening_events'', r_label = ''Avond (18-23)'', r_weight = 4 / 5,
      zScore = Fin 9, severity = High\<rparr>,
    \<lparr>r_key = ''longest_gap_minutes'', r_label = ''Langste gap'', r_weight = 6 / 5,
      zScore = Fin 0, severity = Low\<rparr>,
    \<lparr>r_key = ''night_events'', r_label = ''Nacht events'', r_weight = 1,
      zScore = NaN, severity = Low\<rparr>,
    \<lparr>r_key = ''night_active_hours'', r_label = ''Nacht actieve uren'', r_weight = 4 / 5,
      zScore = NaN, severity = Low\<rparr>,
    \<lparr>r_key = ''rooms_active'', r_label = ''Actieve kamers'', r_weight = 4 / 5,
      zScore = Fin 0, severity = Low\<rparr>,
    \<lparr>r_key = ''motion_events'', r_label = ''Beweging events'', r_weight = 4 / 5,
      zScore = NaN, severity = Low\<rparr>,
    \<lparr>r_key = ''door_events'', r_label = ''Deur events'', r_weight = 4 / 5,
      zScore = NaN, severity = Low\<rparr>,
    \<lparr>r_key = ''activity_regularity'', r_label = ''Regelmaat score'', r_weight = 3 / 5,
      zScore = Fin 0, severity = Low\<rparr>]"
  apply (simp add: scoreBreakdown_def loadedState_baselineStats activeFeatures_def allFeatures_def
      featureGroups_def feat_def Let_def exampleDay_def)
  apply (simp add: scoreRow_def statsAt_def loadedState_baselineStats avgKey_def stdKey_def
      eval_today Let_def calculateZScore_def)
  apply (simp add: awakeDuration_def eval_time)
  done

lemma loadedState_active_hours_row:
  "zScore (scoreRow D (loadedState exampleDay) (allFeatures ! 4)) = NaN"
  apply (simp add: scoreRow_def statsAt_def loadedState_baselineStats Let_def allFeatures_4
      avgKey_def stdKey_def feat_def)
  apply (simp add: eval_today exampleDay_def)
  done

lemma loadedState_total_events_row:
  "scoreRow D (loadedState exampleDay) (allFeatures ! 3) =
   \<lparr>r_key = ''total_events'', r_label = ''Totaal events'', r_weight = 1, zScore = Fin 99,
     severity = High\<rparr>"
  apply (simp add: scoreRow_def statsAt_def loadedState_baselineStats Let_def allFeatures_3
      avgKey_def stdKey_def feat_def)
  apply (simp add: eval_today exampleDay_def calculateZScore_def)
  done

lemma loadedState_scored: "validScores (scoreBreakdown D (loadedState exampleDay)) \<noteq> []"
proof -
  have b: "baselineStats (loadedState exampleDay) \<noteq> None"
    by (simp add: loadedState_baselineStats)
  have a: "allFeatures ! 3 \<in> set (activeFeatures (loadedState exampleDay))"
    by (simp add: activeFeatures_def allFeatures_def featureGroups_def feat_def Let_def)
  from a b have "scoreRow D (loadedState exampleDay) (allFeatures ! 3)
      \<in> set (scoreBreakdown D (loadedState exampleDay))"
    by (simp add: scoreBreakdown_def)
  then have "scoreRow D (loadedState exampleDay) (allFeatures ! 3)
      \<in> set (validScores (scoreBreakdown D (loadedState exampleDay)))"
    by (simp add: validScores_def loadedState_total_events_row)
  then show ?thesis by auto
qed

lemma upt_24:
  "[0..<24] =
   [0, 1, 2, 3, 4, 5, 6, 7, 8, 9, 10, 11, 12, 13, 14, 15, 16, 17, 18, 19, 20, 21, 22, 23::nat]"
  by (simp add: upt_conv_Cons)

lemma replicate_24:
  "replicate 24 (0::real) =
   [0, 0, 0, 0, 0, 0, 0, 0, 0, 0, 0, 0, 0, 0, 0, 0, 0, 0, 0, 0, 0, 0, 0, 0]"
  by (simp add: numeral_eq_Suc)

lemma unitState_pattern [simp]:
  "baselineAvgHourlyPattern unitState =
   Some [0, 0, 0, 0, 0, 0, 0, 0, 1, 0, 0, 0, 0, 1, 0, 0, 0, 0, 0, 1, 0, 0, 0, 0]"
  by (simp add: unitState_def loadDayStats_def loadRoomHourlyData_def loadBaselineStats_def
      averagePattern_def patternDay_def emptyState_def Let_def hourAt_def upt_24 replicate_24)





lemma unitState_dayStats [simp]: "dayStats unitState = Some shiftedDay"
  by (simp add: unitState_def loadDayStats_def)

lemma unitState_roomHourlyData [simp]: "roomHourlyData unitState = Some []"
  by (simp add: unitState_def loadDayStats_def loadRoomHourlyData_def)






section \<open>The aggregate score and its label\<close>






section \<open>The rows of the score\<close>

lemma scoreBreakdown_keys:
  "dayStats st \<noteq> None \<Longrightarrow> baselineStats st \<noteq> None \<Longrightarrow>
   map r_key (scoreBreakdown D st) = map key (activeFeatures st)"
  by (auto simp add: scoreBreakdown_def scoreRow_def Let_def comp_def)

lemma scoreRow_no_value:
  "getTodayValue D st f = None \<Longrightarrow> zScore (scoreRow D st f) = Fin 0"
  by (simp add: scoreRow_def Let_def nullable_def)

text \<open>
  Against C3 as stated: the baseline is loaded from two days of history that have no
  \<open>active_hours\<close>, and today's record has \<open>active_hours = 15\<close> and no
  \<open>longest_gap_minutes\<close>. The feature \<open>active_hours\<close> has a today value and no baseline
  entry, and it has a row. The feature \<open>longest_gap_minutes\<close> has no today value, and it
  has a row with the z-score 0. All 15 active features have a row.
\<close>

theorem scoreBreakdown_rows_without_inputs:
  "active_hours historyDay1 = None \<and> active_hours historyDay2 = None
   \<and> statsAt (loadedState (exampleDay\<lparr>longest_gap_minutes := None\<rparr>)) ''avg_active_hours'' = Undefined
   \<and> getTodayValue hourOfDay_ms (loadedState (exampleDay\<lparr>longest_gap_minutes := None\<rparr>))
        (allFeatures ! 4) = Some (Fin 15)
   \<and> r_key (scoreBreakdown hourOfDay_ms (loadedState (exampleDay\<lparr>longest_gap_minutes := None\<rparr>)) ! 4) =
        ''active_hours''
   \<and> getTodayValue hourOfDay_ms (loadedState (exampleDay\<lparr>longest_gap_minutes := None\<rparr>))
        (allFeatures ! 8) = None
   \<and> scoreBreakdown hourOfDay_ms (loadedState (exampleDay\<lparr>longest_gap_minutes := None\<rparr>)) ! 8 =
       \<lparr>r_key = ''longest_gap_minutes'', r_label = ''Langste gap'', r_weight = 6 / 5,
         zScore = Fin 0, severity = Low\<rparr>
   \<and> length (scoreBreakdown hourOfDay_ms (loadedState (exampleDay\<lparr>longest_gap_minutes := None\<rparr>))) = 15"
proof -
  let ?st = "loadedState (exampleDay\<lparr>longest_gap_minutes := None\<rparr>)"
  have h: "active_hours historyDay1 = None" "active_hours historyDay2 = None"
    by (simp_all add: historyDay1_def historyDay2_def)
  have s: "statsAt ?st ''avg_active_hours'' = Undefined"
    by (simp add: statsAt_def loadedState_baselineStats)
  have t4: "getTodayValue hourOfDay_ms ?st (allFeatures ! 4) = Some (Fin 15)"
    by (simp add: allFeatures_4 feat_def eval_today exampleDay_def)
  have t8: "getTodayValue hourOfDay_ms ?st (allFeatures ! 8) = None"
    by (simp add: allFeatures_8 feat_def eval_today exampleDay_def)
  have r4: "r_key (scoreBreakdown hourOfDay_ms ?st ! 4) = ''active_hours''"
    by (simp add: loadedState_rows)
  have r8: "scoreBreakdown hourOfDay_ms ?st ! 8 =
       \<lparr>r_key = ''longest_gap_minutes'', r_label = ''Langste gap'', r_weight = 6 / 5,
         zScore = Fin 0, severity = Low\<rparr>"
    by (simp add: loadedState_rows)
  have l: "length (scoreBreakdown hourOfDay_ms ?st) = 15"
    by (simp add: loadedState_rows)
  show ?thesis
    by (intro conjI h s t4 t8 r4 r8 l)
qed

text \<open>
  C3, amended. When today's record and a baseline are loaded, the scorer produces exactly
  one row for every active feature, in the order of the catalog, whether or not the
  feature has a today value or a baseline entry; an active feature with no today value has
  the z-score 0 in its row, and that row enters the aggregate. With no record of today or
  no baseline there is no row at all.
\<close>

theorem scoreBreakdown_one_row_per_active_feature:
  "(dayStats st \<noteq> None \<and> baselineStats st \<noteq> None \<longrightarrow>
      map r_key (scoreBreakdown D st) = map key (activeFeatures st) \<and>
      (\<forall>f \<in> set (activeFeatures st). getTodayValue D st f = None \<longrightarrow>
         zScore (scoreRow D st f) = Fin 0 \<and>
         scoreRow D st f \<in> set (validScores (scoreBreakdown D st))))
   \<and> (dayStats st = None \<or> baselineStats st = None \<longrightarrow> scoreBreakdown D st = [])"
proof (intro conjI impI ballI)
  assume h: "dayStats st \<noteq> None \<and> baselineStats st \<noteq> None"
  then show "map r_key (scoreBreakdown D st) = map key (activeFeatures st)"
    by (simp add: scoreBreakdown_keys)
  fix f assume f: "f \<in> set (activeFeatures st)" and n: "getTodayValue D st f = None"
  show z: "zScore (scoreRow D st f) = Fin 0" by (rule scoreRow_no_value[OF n])
  from h f have "scoreRow D st f \<in> set (scoreBreakdown D st)"
    by (auto simp: scoreBreakdown_def)
  with z show "scoreRow D st f \<in> set (validScores (scoreBreakdown D st))"
    by (simp add: validScores_def)
next
  assume "dayStats st = None \<or> baselineStats st = None"
  then show "scoreBreakdown D st = []" by (auto simp: scoreBreakdown_def)
qed

theorem scoreBreakdown_one_row_per_active_feature_witness:
  "dayStats (loadedState (exampleDay\<lparr>longest_gap_minutes := None\<rparr>)) \<noteq> None
   \<and> baselineStats (loadedState (exampleDay\<lparr>longest_gap_minutes := None\<rparr>)) \<noteq> None
   \<and> allFeatures ! 8 \<in> set (activeFeatures (loadedState (exampleDay\<lparr>longest_gap_minutes := None\<rparr>)))
   \<and> getTodayValue hourOfDay_ms (loadedState (exampleDay\<lparr>longest_gap_minutes := None\<rparr>))
        (allFeatures ! 8) = None
   \<and> map r_key (scoreBreakdown hourOfDay_ms (loadedState (exampleDay\<lparr>longest_gap_minutes := None\<rparr>))) =
       map key (activeFeatures (loadedState (exampleDay\<lparr>longest_gap_minutes := None\<rparr>)))
   \<and> zScore (scoreRow hourOfDay_ms (loadedState (exampleDay\<lparr>longest_gap_minutes := None\<rparr>))
        (allFeatures ! 8)) = Fin 0
   \<and> dayStats emptyState = None
   \<and> scoreBreakdown hourOfDay_ms emptyState = []"
proof -
  let ?st = "loadedState (exampleDay\<lparr>longest_gap_minutes := None\<rparr>)"
  have d: "dayStats ?st \<noteq> None" "baselineStats ?st \<noteq> None"
    by (simp_all add: loadedState_baselineStats)
  have m: "allFeatures ! 8 \<in> set (activeFeatures ?st)"
    by (simp add: activeFeatures_def allFeatures_def featureGroups_def feat_def Let_def)
  have a: "getTodayValue hourOfDay_ms ?st (allFeatures ! 8) = None"
    by (simp add: allFeatures_8 feat_def eval_today exampleDay_def)
  have e: "dayStats emptyState = None" by (simp add: emptyState_def)
  from scoreBreakdown_one_row_per_active_feature[of ?st hourOfDay_ms]
       scoreBreakdown_one_row_per_active_feature[of emptyState hourOfDay_ms] d m a e
  show ?thesis by blast
qed

text \<open>
  C4. The claim is that the z-score is \<open>(today - mean) / stddev\<close>, and 0 when an operand is
  \<open>null\<close> or \<open>undefined\<close> or the standard deviation is 0. \<open>calculateZScore\<close> tests its
  operands against \<open>null\<close> only, and a baseline that has no entry for a feature reads
  \<open>undefined\<close>: for a today value of 50 and no baseline entry the z-score is NaN. So it is
  for \<open>active_hours\<close> when today's value is 15 and the baseline was loaded from two days
  that have no \<open>active_hours\<close>.
\<close>

theorem calculateZScore_undefined_baseline_NaN:
  "calculateZScore (Number (Fin 50)) Undefined Undefined = NaN
   \<and> calculateZScore (Number (Fin 50)) (Number (Fin 20)) Undefined = NaN
   \<and> active_hours exampleDay = Some 15
   \<and> active_hours historyDay1 = None \<and> active_hours historyDay2 = None
   \<and> statsAt (loadedState exampleDay) ''avg_active_hours'' = Undefined
   \<and> statsAt (loadedState exampleDay) ''std_active_hours'' = Undefined
   \<and> key (allFeatures ! 4) = ''active_hours''
   \<and> zScore (scoreRow D (loadedState exampleDay) (allFeatures ! 4)) = NaN"
proof -
  have c: "calculateZScore (Number (Fin 50)) Undefined Undefined = NaN"
    "calculateZScore (Number (Fin 50)) (Number (Fin 20)) Undefined = NaN"
    by (simp_all add: calculateZScore_def)
  have d: "active_hours exampleDay = Some 15" "active_hours historyDay1 = None"
    "active_hours historyDay2 = None"
    by (simp_all add: exampleDay_def historyDay1_def historyDay2_def)
  have s: "statsAt (loadedState exampleDay) ''avg_active_hours'' = Undefined"
    "statsAt (loadedState exampleDay) ''std_active_hours'' = Undefined"
    by (simp_all add: statsAt_def loadedState_baselineStats)
  have k: "key (allFeatures ! 4) = ''active_hours''" by (simp add: allFeatures_4 feat_def)
  show ?thesis
    by (intro conjI c d s k loadedState_active_hours_row)
qed

section \<open>The baseline\<close>

text \<open>
  C5. The claim is that the stored standard deviation of a feature is at least 1 for any
  list of samples. The code replaces a standard deviation of 0 (or NaN) by 1 and keeps
  every other value: for the samples 0 and 1 (\<open>total_events\<close> of two days of history)
  \<open>stddev\<close> returns \<open>1/2\<close> and the baseline stores \<open>std_total_events = 1/2\<close>.
\<close>

theorem baseline_stddev_below_one:
  "stddev (Some [Fin 0, Fin 1]) = Fin (1 / 2)
   \<and> total_events historyDay1 = Some 0 \<and> total_events historyDay2 = Some 1
   \<and> statsAt (loadBaselineStats D (Some [historyDay1, historyDay2]) (Some []) emptyState)
        ''std_total_events'' = Number (Fin (1 / 2))
   \<and> js_lt (Fin (1 / 2)) (Fin 1)"
proof -
  have a: "stddev (Some [Fin 0, Fin 1]) = Fin (1 / 2)"
    by (simp add: stddev_def avg_def js_sum_def nullable_def or_else_def Let_def real_sqrt_divide)
  have b: "statsAt (loadBaselineStats D (Some [historyDay1, historyDay2]) (Some []) emptyState)
        ''std_total_events'' = Number (Fin (1 / 2))"
    apply (simp add: loadBaselineStats_def statsAt_def allFeatures_def featureGroups_def)
    apply (simp add: eval_hist eval_load historyDay1_def historyDay2_def emptyState_def)
    done
  have t: "total_events historyDay1 = Some 0" "total_events historyDay2 = Some 1"
    by (simp_all add: historyDay1_def historyDay2_def)
  have l: "js_lt (Fin (1 / 2)) (Fin 1)" by simp
  show ?thesis
    by (intro conjI a b t l)
qed

text \<open>
  Against C6 as stated: for a household whose day has \<open>rooms_available = 1\<close>, with two
  days of history that have one room available and active, the baseline holds the entries
  \<open>avg_room_ratio = 1\<close> and \<open>std_room_ratio = 1\<close> of the room feature \<open>room_ratio\<close>.
\<close>

theorem baseline_entry_for_room_ratio_single_room:
  "rooms_available exampleDay = Some 1
   \<and> rooms_available historyDay1 = Some 1 \<and> rooms_available historyDay2 = Some 1
   \<and> dayStats (loadedState exampleDay) = Some exampleDay
   \<and> statsAt (loadedState exampleDay) ''avg_room_ratio'' = Number (Fin 1)
   \<and> statsAt (loadedState exampleDay) ''std_room_ratio'' = Number (Fin 1)"
proof -
  have b: "statsAt (loadedState exampleDay) ''avg_room_ratio'' = Number (Fin 1)"
    by (simp add: statsAt_def loadedState_baselineStats)
  have c: "statsAt (loadedState exampleDay) ''std_room_ratio'' = Number (Fin 1)"
    by (simp add: statsAt_def loadedState_baselineStats)
  have t: "rooms_available exampleDay = Some 1" "rooms_available historyDay1 = Some 1"
    "rooms_available historyDay2 = Some 1"
    by (simp_all add: historyDay1_def historyDay2_def exampleDay_def)
  show ?thesis
    by (intro conjI b c t loadedState_dayStats)
qed

lemma activeFeatures_single_room:
  assumes "dayStats st = Some ds" "orZero (rooms_available ds) \<le> 1"
  shows "list_all (\<lambda>f. \<not> isRoomFeature f) (activeFeatures st)"
  using assms by (auto simp: activeFeatures_def orZero_def list_all_iff split: option.splits)

lemma allFeatures_room_keys:
  "list_all (\<lambda>f. isRoomKey (key f) = isRoomFeature f) allFeatures"
  by (simp add: allFeatures_def featureGroups_def feat_def isRoomKey_def)

lemma activeFeatures_subset: "set (activeFeatures st) \<subseteq> set allFeatures"
  by (auto simp: activeFeatures_def Let_def)

lemma getHistoricalValue_pattern:
  assumes "baselineAvgHourlyPattern st = baselineAvgHourlyPattern st'"
  shows "getHistoricalValue D st f d r = getHistoricalValue D st' f d r"
  unfolding getHistoricalValue_def assms by (rule refl)

lemma historicalValues_pattern:
  assumes "baselineAvgHourlyPattern st = baselineAvgHourlyPattern st'"
  shows "historicalValues D st rb days f = historicalValues D st' rb days f"
  unfolding historicalValues_def getHistoricalValue_pattern[OF assms] by (rule refl)

lemma loadBaselineStats_dayStats:
  "baselineStats (loadBaselineStats D dailyData roomData (st\<lparr>dayStats := x\<rparr>)) =
   baselineStats (loadBaselineStats D dailyData roomData st)"
proof -
  have "historicalValues D
          (st\<lparr>dayStats := x, baselineAvgHourlyPattern := p, baselineRoomByDate := rb\<rparr>) rb' days f =
        historicalValues D (st\<lparr>baselineAvgHourlyPattern := p, baselineRoomByDate := rb\<rparr>) rb' days f"
    for p rb rb' days f
    by (rule historicalValues_pattern) simp
  then show ?thesis
    by (simp add: loadBaselineStats_def Let_def split: option.splits)
qed

text \<open>
  C6, amended. For every household whose selected day has \<open>rooms_available \<le> 1\<close>, no
  scored row is a row of a room feature (\<open>room_ratio\<close>, \<open>main_room_pct\<close>,
  \<open>transition_count\<close>). The baseline is computed over the whole catalog and does not
  depend on the selected day's record.
\<close>

theorem room_features_not_scored_single_room:
  "(dayStats st = Some ds \<and> orZero (rooms_available ds) \<le> 1 \<longrightarrow>
      list_all (\<lambda>r. \<not> isRoomKey (r_key r)) (scoreBreakdown D st))
   \<and> baselineStats (loadBaselineStats D dailyData roomData (st\<lparr>dayStats := x\<rparr>)) =
       baselineStats (loadBaselineStats D dailyData roomData st)"
proof (intro conjI impI)
  assume h: "dayStats st = Some ds \<and> orZero (rooms_available ds) \<le> 1"
  have "\<not> isRoomKey (key f)" if f: "f \<in> set (activeFeatures st)" for f
  proof -
    from f activeFeatures_subset have "f \<in> set allFeatures" by blast
    with allFeatures_room_keys have "isRoomKey (key f) = isRoomFeature f"
      by (simp add: list_all_iff)
    moreover from activeFeatures_single_room[of st ds] h f have "\<not> isRoomFeature f"
      by (simp add: list_all_iff)
    ultimately show ?thesis by simp
  qed
  then show "list_all (\<lambda>r. \<not> isRoomKey (r_key r)) (scoreBreakdown D st)"
    by (auto simp: scoreBreakdown_def scoreRow_def Let_def list_all_iff)
next
  show "baselineStats (loadBaselineStats D dailyData roomData (st\<lparr>dayStats := x\<rparr>)) =
       baselineStats (loadBaselineStats D dailyData roomData st)"
    by (rule loadBaselineStats_dayStats)
qed

theorem room_features_not_scored_single_room_witness:
  "dayStats (loadedState exampleDay) = Some exampleDay
   \<and> orZero (rooms_available exampleDay) \<le> 1
   \<and> scoreBreakdown hourOfDay_ms (loadedState exampleDay) \<noteq> []
   \<and> list_all (\<lambda>r. \<not> isRoomKey (r_key r)) (scoreBreakdown hourOfDay_ms (loadedState exampleDay))"
proof -
  have r: "orZero (rooms_available exampleDay) \<le> 1" by (simp add: exampleDay_def orZero_def)
  have n: "scoreBreakdown hourOfDay_ms (loadedState exampleDay) \<noteq> []"
    using loadedState_scored[of hourOfDay_ms] by (auto simp: validScores_def)
  from room_features_not_scored_single_room[of "loadedState exampleDay" exampleDay hourOfDay_ms]
       loadedState_dayStats[of exampleDay] r n
  show ?thesis by blast
qed

text \<open>
  C7. When the window has no daily record, the baseline is \<open>null\<close>: it has no entry for
  any key \<open>k\<close>. The scorer then produces no row, no row is scored, and the aggregate is 0.
\<close>

theorem empty_window_no_baseline_no_score:
  "baselineStats (loadBaselineStats D (Some []) roomData st) = None
   \<and> statsAt (loadBaselineStats D (Some []) roomData st) k = Undefined
   \<and> scoreBreakdown D (loadBaselineStats D (Some []) roomData st) = []
   \<and> validScores (scoreBreakdown D (loadBaselineStats D (Some []) roomData st)) = []
   \<and> anomalyScore (scoreBreakdown D (loadBaselineStats D (Some []) roomData st)) = Fin 0"
  by (simp add: loadBaselineStats_def statsAt_def scoreBreakdown_def validScores_def
      anomalyScore_def)

section \<open>Awake duration\<close>

lemma awakeDuration_same:
  assumes "isTimeString t"
  shows "awakeDuration (Some t) (Some t) = (if minutesOf t = 0 then None else Some (Fin 0))"
  using assms
  by (simp add: awakeDuration_def isTimeString_not_absent timeToMinutes_isTimeString Let_def)

lemma awakeDuration_times:
  assumes "isTimeString f" "isTimeString l"
  shows "awakeDuration (Some f) (Some l) =
     (if minutesOf f = 0 \<and> minutesOf l = 0 then None
      else Some (Fin (max 0 (real (minutesOf l) - real (minutesOf f)))))"
  using assms
  by (simp add: awakeDuration_def isTimeString_not_absent timeToMinutes_isTimeString Let_def)

lemma awakeDuration_absent: "absent f \<or> absent l \<Longrightarrow> awakeDuration f l = None"
  by (auto simp: awakeDuration_def)

lemmas eval_digit = isDigit_def isRadixDigit_def digitVal_def digitOf_def

text \<open>
  Against C8 as stated: \<open>00:00\<close> is a valid time string, and \<open>awakeDuration\<close> of it with
  itself is \<open>null\<close>, not 0.
\<close>

theorem awakeDuration_midnight_null:
  "isTimeString ''00:00'' \<and> awakeDuration (Some ''00:00'') (Some ''00:00'') = None"
  by (simp add: awakeDuration_same eval_digit)

text \<open>
  C8, amended. \<open>awakeDuration\<close> is \<open>null\<close> when either string is absent (\<open>null\<close> or
  empty). For a valid time string \<open>t\<close>, \<open>awakeDuration(t, t)\<close> is 0, except that it is
  \<open>null\<close> when \<open>t\<close> denotes 0 minutes (\<open>00:00\<close>). For valid time strings in general it is
  \<open>max(0, minutes(last) - minutes(first))\<close>, except that it is \<open>null\<close> when both denote 0
  minutes.
\<close>

theorem awakeDuration_cases:
  "(absent f \<or> absent l \<longrightarrow> awakeDuration f l = None)
   \<and> (isTimeString t \<longrightarrow>
        awakeDuration (Some t) (Some t) = (if minutesOf t = 0 then None else Some (Fin 0)))
   \<and> (isTimeString a \<and> isTimeString b \<longrightarrow>
        awakeDuration (Some a) (Some b) =
          (if minutesOf a = 0 \<and> minutesOf b = 0 then None
           else Some (Fin (max 0 (real (minutesOf b) - real (minutesOf a))))))"
  using awakeDuration_absent[of f l] awakeDuration_same[of t] awakeDuration_times[of a b]
  by blast

theorem awakeDuration_cases_witness:
  "absent None \<and> awakeDuration None (Some ''10:00'') = None
   \<and> isTimeString ''08:30'' \<and> awakeDuration (Some ''08:30'') (Some ''08:30'') = Some (Fin 0)
   \<and> isTimeString ''22:15:30''
   \<and> awakeDuration (Some ''08:30'') (Some ''22:15:30'') = Some (Fin 825)
   \<and> awakeDuration (Some ''22:15:30'') (Some ''08:30'') = Some (Fin 0)"
proof -
  have t: "isTimeString ''08:30''" "isTimeString ''22:15:30''"
    by (simp_all add: eval_digit)
  have m: "minutesOf ''08:30'' = 510" "minutesOf ''22:15:30'' = 1335"
    by (simp_all add: eval_digit)
  have n: "absent None" by (simp add: absent_def)
  from awakeDuration_cases[of None "Some ''10:00''" "''08:30''" "''08:30''" "''22:15:30''"]
       awakeDuration_cases[of None "Some ''10:00''" "''08:30''" "''22:15:30''" "''08:30''"]
  show ?thesis
    using t n unfolding m by simp
qed

end
